theory Spec2Isabelle
  imports Complex_Main "HOL-Library.AList"
begin

section \<open>The flexstack client SDK: payload shaping and validation\<close>

text \<open>
  The four classes of \<^verbatim>\<open>flexstack.models\<close> (\<^verbatim>\<open>ImageGeneration\<close>,
  \<^verbatim>\<open>TextGeneration\<close>, \<^verbatim>\<open>AudioGeneration\<close>, \<^verbatim>\<open>FlexstackInfo\<close>) hold a base URL
  and nothing else; each method builds one request, hands it to the \<^verbatim>\<open>requests\<close> library
  and returns the decoded body. The embedding passes \<^verbatim>\<open>self.base_url\<close> as a string and
  makes the two effects explicit: an exception is the left summand of the result, and
  every call into \<^verbatim>\<open>requests\<close> is recorded in the list of requests a method returns
  beside its result.
\<close>

subsection \<open>Python values\<close>

text \<open>
  The values that travel through the SDK are JSON data. Strings are byte lists in UTF-8;
  a float literal is kept as the rational it denotes (floats are only passed through,
  never computed with); a dict is an association list in insertion order whose keys are
  strings.
\<close>

datatype pyval =
    PNone
  | PBool bool
  | PInt int
  | PFloat rat
  | PStr string
  | PList "pyval list"
  | PDict "(string \<times> pyval) list"

type_synonym pydict = "(string \<times> pyval) list"

text \<open>An omitted keyword argument takes the default written in the signature.\<close>

fun dflt :: "'a \<Rightarrow> 'a option \<Rightarrow> 'a" where
  "dflt d None = d"
| "dflt d (Some x) = x"

text \<open>\<^verbatim>\<open>sep.join(xs)\<close>.\<close>

fun join :: "string \<Rightarrow> string list \<Rightarrow> string" where
  "join sep [] = []"
| "join sep [x] = x"
| "join sep (x # y # ys) = x @ sep @ join sep (y # ys)"

text \<open>
  \<^verbatim>\<open>d.update(other)\<close>: the pairs of \<^verbatim>\<open>other\<close> are stored one after the other;
  \<^verbatim>\<open>d[k] = v\<close> itself is \<^const>\<open>AList.update\<close> (in place when the key is present, appended
  otherwise).
\<close>

definition dict_update :: "('k \<times> 'v) list \<Rightarrow> ('k \<times> 'v) list \<Rightarrow> ('k \<times> 'v) list" where
  "dict_update d other = fold (\<lambda>(k, v). AList.update k v) other d"

subsection \<open>Exceptions and the HTTP boundary\<close>

text \<open>
  \<^verbatim>\<open>ValueError\<close> is the exception of the source's own \<^verbatim>\<open>raise\<close> statements (the
  specification calls it ValidationError) and carries its message; \<^verbatim>\<open>KeyError\<close> carries
  the missing key and \<^verbatim>\<open>AttributeError\<close> the missing attribute. The other three come
  out of \<^verbatim>\<open>requests\<close>: a bad status (with the status code), a failed connection, a body
  that is not JSON.
\<close>

datatype error =
    ValueError string
  | KeyError string
  | AttributeError string
  | HTTPError nat
  | ConnectionError
  | JSONDecodeError

fun is_ValueError :: "error + 'a \<Rightarrow> bool" where
  "is_ValueError (Inl (ValueError m)) = True"
| "is_ValueError r = False"

datatype http_method = GET | POST

text \<open>
  The arguments of one call to \<^verbatim>\<open>requests.get\<close> or \<^verbatim>\<open>requests.post\<close>:
  \<^verbatim>\<open>json=\<close>, \<^verbatim>\<open>params=\<close>, \<^verbatim>\<open>headers=\<close> and \<^verbatim>\<open>stream=\<close>; \<open>None\<close> where the
  call does not pass the argument.
\<close>

record request =
  req_method :: http_method
  req_url :: string
  req_json :: "pydict option"
  req_params :: "pydict option"
  req_headers :: "(string \<times> string) list"
  req_stream :: bool

text \<open>
  What the library hands back: the status code, the decoded body (\<open>None\<close> when
  \<^verbatim>\<open>response.json()\<close> raises) and the chunks \<^verbatim>\<open>response.iter_lines()\<close> produces.
\<close>

record response =
  status_code :: nat
  resp_json :: "pyval option"
  resp_lines :: "string list"

text \<open>The remote platform and the library together; \<open>None\<close> is a connection failure.\<close>

type_synonym transport = "request \<Rightarrow> response option"

type_synonym 'a outcome = "(error + 'a) \<times> request list"

text \<open>
  The tail shared by every non-streaming method:
  \<^verbatim>\<open>response = requests.<method>(...); return response.json()\<close>.
\<close>

definition send :: "transport \<Rightarrow> request \<Rightarrow> pyval outcome" where
  "send net req =
     (case net req of
        None \<Rightarrow> (Inl ConnectionError, [req])
      | Some response \<Rightarrow>
          (case resp_json response of
             None \<Rightarrow> (Inl JSONDecodeError, [req])
           | Some body \<Rightarrow> (Inr body, [req])))"

text \<open>
  \<^verbatim>\<open>Response.raise_for_status\<close> belongs to the \<^verbatim>\<open>requests\<close> library, not to this
  repository; as documented there it raises \<^verbatim>\<open>HTTPError\<close> for a 4xx or 5xx status and
  returns otherwise.
\<close>

definition raise_for_status :: "response \<Rightarrow> error option" where
  "raise_for_status response =
     (if 400 \<le> status_code response \<and> status_code response < 600
      then Some (HTTPError (status_code response)) else None)"

subsection \<open>\<^verbatim>\<open>image.py\<close>: ImageGeneration\<close>

definition create_config ::
  "pyval option \<Rightarrow> pyval option \<Rightarrow> pyval option \<Rightarrow> pyval option \<Rightarrow> pydict" where
  "create_config rotation steps negative_prompt enhance_prompt =
     [(''rotation'', dflt (PStr ''square'') rotation),
      (''steps'', dflt (PInt 50) steps),
      (''negative_prompt'', dflt (PStr '''') negative_prompt),
      (''lora_weight_url'', PStr ''''),
      (''enhance_prompt'', dflt (PBool False) enhance_prompt)]"

definition get_result_sd_task ::
  "transport \<Rightarrow> string \<Rightarrow> string \<Rightarrow> (string \<times> string) list \<Rightarrow> pyval outcome" where
  "get_result_sd_task net base_url task_id headers =
     (let url = base_url @ ''/ai/get_result_sd_task'';
          payload = [(''task_id'', PStr task_id)]
      in send net \<lparr>req_method = POST, req_url = url, req_json = Some payload,
                    req_params = None, req_headers = headers, req_stream = False\<rparr>)"

definition get_result_sdxl_task ::
  "transport \<Rightarrow> string \<Rightarrow> string \<Rightarrow> (string \<times> string) list \<Rightarrow> pyval outcome" where
  "get_result_sdxl_task net base_url task_id headers =
     (let url = base_url @ ''/ai/get_result_sdxl_task'';
          payload = [(''task_id'', PStr task_id)]
      in send net \<lparr>req_method = POST, req_url = url, req_json = Some payload,
                    req_params = None, req_headers = headers, req_stream = False\<rparr>)"

text \<open>
  The fourth keyword of the \<^verbatim>\<open>dict(...)\<close> call in \<^verbatim>\<open>create_txt2img\<close> is spelt with
  U+01B0 (LATIN SMALL LETTER U WITH HORN, bytes C6 B0 in UTF-8) in place of \<^verbatim>\<open>w\<close>.
\<close>

definition uhorn_idth :: string where
  "uhorn_idth = CHR 0xC6 # CHR 0xB0 # ''idth''"

definition create_txt2img ::
  "transport \<Rightarrow> string \<Rightarrow> pyval \<Rightarrow> pyval option \<Rightarrow> pyval option \<Rightarrow> pyval option \<Rightarrow>
   pyval option \<Rightarrow> pyval option \<Rightarrow> pyval option \<Rightarrow> pyval option \<Rightarrow> pyval option \<Rightarrow>
   (string \<times> string) list \<Rightarrow> pyval outcome" where
  "create_txt2img net base_url prompt model lora width height steps seed
                  negative_prompt enhance_prompt headers =
     (let configs =
            [(''model'', dflt (PStr ''sdxl-lightning'') model),
             (''lora'', dflt (PStr '''') lora),
             (''height'', dflt (PInt 1024) height),
             (uhorn_idth, dflt (PInt 1024) width),
             (''steps'', dflt (PInt 8) steps),
             (''negative_prompt'', dflt (PStr '''') negative_prompt),
             (''seed'', dflt (PInt (- 1)) seed),
             (''enhance_prompt'', dflt (PBool False) enhance_prompt)];
          url = base_url @ ''/ai/image_generation'';
          payload = [(''prompt'', prompt), (''configs'', PDict configs)]
      in send net \<lparr>req_method = POST, req_url = url, req_json = Some payload,
                    req_params = None, req_headers = headers, req_stream = False\<rparr>)"

definition result_txt2img ::
  "transport \<Rightarrow> string \<Rightarrow> string \<Rightarrow> (string \<times> string) list \<Rightarrow> pyval outcome" where
  "result_txt2img net base_url task_id headers =
     (let url = base_url @ ''/ai/image_generation/'' @ task_id
      in send net \<lparr>req_method = GET, req_url = url, req_json = None,
                    req_params = None, req_headers = headers, req_stream = False\<rparr>)"

definition result_txt2vid ::
  "transport \<Rightarrow> string \<Rightarrow> string \<Rightarrow> (string \<times> string) list \<Rightarrow> pyval outcome" where
  "result_txt2vid net base_url task_id headers =
     (let url = base_url @ ''/ai/video_generation/'' @ task_id
      in send net \<lparr>req_method = GET, req_url = url, req_json = None,
                    req_params = None, req_headers = headers, req_stream = False\<rparr>)"

text \<open>
  \<^verbatim>\<open>type\<close> and \<^verbatim>\<open>cate\<close> default to Python's \<^verbatim>\<open>None\<close>; both are stored in
  \<^verbatim>\<open>params\<close> in any case.
\<close>

definition get_lora_models ::
  "transport \<Rightarrow> string \<Rightarrow> pyval option \<Rightarrow> pyval option \<Rightarrow> (string \<times> string) list \<Rightarrow>
   pyval outcome" where
  "get_lora_models net base_url type cate headers =
     (let params = [];
          params = AList.update ''type'' (dflt PNone type) params;
          params = AList.update ''cate'' (dflt PNone cate) params;
          url = base_url @ ''/lora/''
      in send net \<lparr>req_method = GET, req_url = url, req_json = None,
                    req_params = Some params, req_headers = headers, req_stream = False\<rparr>)"

subsection \<open>\<^verbatim>\<open>audio.py\<close>: AudioGeneration\<close>

definition kwargs_valids :: "(string \<times> string list) list" where
  "kwargs_valids =
     [(''audiogen'', [''duration'', ''top_k'', ''top_p'']),
      (''musicgen'', [''duration'', ''top_k'', ''top_p'']),
      (''bark'', [])]"

definition unsupported_kwarg :: "string \<Rightarrow> string \<Rightarrow> string list \<Rightarrow> string" where
  "unsupported_kwarg model k valid =
     ''Model `'' @ model @ ''` does not support keyword argument: `'' @ k @
     ''`. Only suport in ['' @ join '', '' (valid @ [''prompt'', ''model'']) @ '']''"

text \<open>
  The loop over \<^verbatim>\<open>kwargs.items()\<close>. The table is indexed by \<^verbatim>\<open>model\<close> inside the
  loop body, so a model that is not in the table raises \<^verbatim>\<open>KeyError\<close> at the first
  keyword argument and nothing at all when there is none.
\<close>

fun valid_kwargs :: "string \<Rightarrow> pydict \<Rightarrow> error option" where
  "valid_kwargs model [] = None"
| "valid_kwargs model ((k, v) # rest) =
     (case map_of kwargs_valids model of
        None \<Rightarrow> Some (KeyError model)
      | Some valid \<Rightarrow>
          if k \<notin> set valid then Some (ValueError (unsupported_kwarg model k valid))
          else valid_kwargs model rest)"

text \<open>\<^verbatim>\<open>kwargs[k] = d if k not in kwargs else kwargs[k]\<close>.\<close>

definition setdefault :: "string \<Rightarrow> pyval \<Rightarrow> pydict \<Rightarrow> pydict" where
  "setdefault k d kwargs =
     AList.update k (case map_of kwargs k of None \<Rightarrow> d | Some v \<Rightarrow> v) kwargs"

definition create_txt2audio ::
  "transport \<Rightarrow> string \<Rightarrow> pyval \<Rightarrow> string option \<Rightarrow> (string \<times> string) list \<Rightarrow> pydict \<Rightarrow>
   pyval outcome" where
  "create_txt2audio net base_url prompt model_arg headers kwargs =
     (let model = dflt ''musicgen'' model_arg
      in case valid_kwargs model kwargs of
           Some e \<Rightarrow> (Inl e, [])
         | None \<Rightarrow>
             (let kwargs =
                    (if model = ''audiogen'' \<or> model = ''musicgen''
                     then setdefault ''top_p'' (PFloat (9 / 10))
                            (setdefault ''top_k'' (PInt 15)
                              (setdefault ''duration'' (PInt 5) kwargs))
                     else kwargs);
                  url = base_url @ ''/ai/audio_generation'';
                  configs = [(''model'', PStr model)];
                  configs = dict_update configs kwargs;
                  payload = [(''prompt'', prompt), (''configs'', PDict configs)]
              in send net \<lparr>req_method = POST, req_url = url, req_json = Some payload,
                            req_params = None, req_headers = headers,
                            req_stream = False\<rparr>))"

definition result_txt2audio ::
  "transport \<Rightarrow> string \<Rightarrow> string \<Rightarrow> (string \<times> string) list \<Rightarrow> pyval outcome" where
  "result_txt2audio net base_url task_id headers =
     (let url = base_url @ ''/ai/audio_generation/'' @ task_id
      in send net \<lparr>req_method = GET, req_url = url, req_json = None,
                    req_params = None, req_headers = headers, req_stream = False\<rparr>)"

subsection \<open>\<^verbatim>\<open>info.py\<close>: FlexstackInfo\<close>

definition task_names :: "string list" where
  "task_names =
     [''image_generation'', ''video_generation'', ''text_completion'',
      ''audio_generation'', ''text_embedding'']"

definition task_message :: string where
  \<open>task_message =
     ''task must be one of ["image_generation", "video_generation", "text_completion", "audio_generation", "text_embedding"]''\<close>

definition get_models ::
  "transport \<Rightarrow> string \<Rightarrow> string \<Rightarrow> (string \<times> string) list \<Rightarrow> pyval outcome" where
  "get_models net base_url task headers =
     (if task \<notin> set task_names then (Inl (ValueError task_message), [])
      else
        (let url = base_url @ ''/models/'' @ task
         in send net \<lparr>req_method = GET, req_url = url, req_json = None,
                       req_params = None, req_headers = headers, req_stream = False\<rparr>))"

subsection \<open>\<^verbatim>\<open>llm.py\<close>: TextGeneration\<close>

definition not_a_list :: string where
  "not_a_list =
     ''Messages must be a list. Example: [{'' @ [CHR 0x27] @ ''role'' @ [CHR 0x27] @
     '': '' @ [CHR 0x27] @ ''user'' @ [CHR 0x27] @ '', '' @ [CHR 0x27] @ ''content'' @
     [CHR 0x27] @ '': '' @ [CHR 0x27] @ ''Hello'' @ [CHR 0x27] @ ''}]''"

definition bad_keys :: string where
  "bad_keys =
     ''Message must contain '' @ [CHR 0x27] @ ''role'' @ [CHR 0x27] @ '' and '' @
     [CHR 0x27] @ ''content'' @ [CHR 0x27] @ ''. Example: [{'' @ [CHR 0x27] @ ''role'' @
     [CHR 0x27] @ '': '' @ [CHR 0x27] @ ''user'' @ [CHR 0x27] @ '', '' @ [CHR 0x27] @
     ''content'' @ [CHR 0x27] @ '': '' @ [CHR 0x27] @ ''Hello'' @ [CHR 0x27] @ ''}]''"

definition bad_role :: string where
  "bad_role =
     ''Message role must be '' @ [CHR 0x27] @ ''system'' @ [CHR 0x27] @ '', '' @
     [CHR 0x27] @ ''user'' @ [CHR 0x27] @ '' or '' @ [CHR 0x27] @ ''assistant'' @
     [CHR 0x27] @ ''. Example: [{'' @ [CHR 0x27] @ ''role'' @ [CHR 0x27] @ '': '' @
     [CHR 0x27] @ ''user'' @ [CHR 0x27] @ '', '' @ [CHR 0x27] @ ''content'' @
     [CHR 0x27] @ '': '' @ [CHR 0x27] @ ''Hello'' @ [CHR 0x27] @ ''}]''"

text \<open>
  The loop \<^verbatim>\<open>for message in messages\<close>. \<^verbatim>\<open>message.keys()\<close> exists on a dict only: on
  any other value the attribute lookup raises \<^verbatim>\<open>AttributeError\<close>. The subscript
  \<^verbatim>\<open>message['role']\<close> is reached only when the key is there; its \<^verbatim>\<open>KeyError\<close> branch
  keeps the model total.
\<close>

fun check_messages :: "pyval list \<Rightarrow> error option" where
  "check_messages [] = None"
| "check_messages (message # rest) =
     (case message of
        PDict d \<Rightarrow>
          (let keys = map fst d
           in if set keys \<noteq> set [''role'', ''content''] then Some (ValueError bad_keys)
              else
                (case map_of d ''role'' of
                   None \<Rightarrow> Some (KeyError ''role'')
                 | Some role \<Rightarrow>
                     if role \<notin> set [PStr ''system'', PStr ''user'', PStr ''assistant'']
                     then Some (ValueError bad_role)
                     else check_messages rest))
      | _ \<Rightarrow> Some (AttributeError ''keys''))"

text \<open>
  The statements that open both \<^verbatim>\<open>text_generation\<close> and \<^verbatim>\<open>generate_text_stream\<close>:
  the \<^verbatim>\<open>isinstance(messages, list)\<close> test, then the loop.
\<close>

fun validate_messages :: "pyval \<Rightarrow> error option" where
  "validate_messages (PList messages) = check_messages messages"
| "validate_messages other = Some (ValueError not_a_list)"

definition completion_configs ::
  "pyval option \<Rightarrow> pyval option \<Rightarrow> pyval option \<Rightarrow> pyval option \<Rightarrow> pyval option \<Rightarrow> pydict" where
  "completion_configs model temperature top_k top_p max_tokens =
     [(''model'', dflt (PStr ''gemma-7b'') model),
      (''temperature'', dflt (PFloat (7 / 10)) temperature),
      (''top_k'', dflt (PInt 50) top_k),
      (''top_p'', dflt (PFloat (95 / 100)) top_p),
      (''max_new_tokens'', dflt (PInt 256) max_tokens)]"

definition text_generation ::
  "transport \<Rightarrow> string \<Rightarrow> pyval \<Rightarrow> pyval option \<Rightarrow> pyval option \<Rightarrow> pyval option \<Rightarrow>
   pyval option \<Rightarrow> pyval option \<Rightarrow> (string \<times> string) list \<Rightarrow> pyval outcome" where
  "text_generation net base_url messages model temperature top_k top_p max_tokens headers =
     (case validate_messages messages of
        Some e \<Rightarrow> (Inl e, [])
      | None \<Rightarrow>
          (let url = base_url @ ''/ai/text_completion'';
               configs = completion_configs model temperature top_k top_p max_tokens;
               payload = [(''messages'', messages), (''configs'', PDict configs)]
           in send net \<lparr>req_method = POST, req_url = url, req_json = Some payload,
                         req_params = None, req_headers = headers, req_stream = False\<rparr>))"

definition result_text_embedding ::
  "transport \<Rightarrow> string \<Rightarrow> string \<Rightarrow> (string \<times> string) list \<Rightarrow> pyval outcome" where
  "result_text_embedding net base_url task_id headers =
     (let url = base_url @ ''/ai/text_embedding/'' @ task_id
      in send net \<lparr>req_method = GET, req_url = url, req_json = None,
                    req_params = None, req_headers = headers, req_stream = False\<rparr>)"

subsection \<open>The generator \<^verbatim>\<open>generate_text_stream\<close>\<close>

text \<open>
  \<^verbatim>\<open>generate_text_stream\<close> contains \<^verbatim>\<open>yield\<close>, so calling it runs none of its body: it
  returns a generator object that holds the arguments. The body runs when the object is
  advanced with \<^verbatim>\<open>next\<close>, up to the following \<^verbatim>\<open>yield\<close>, to the end of the body
  (\<^verbatim>\<open>StopIteration\<close>) or to an exception. A generator is therefore one of: created and
  not started; suspended at the \<^verbatim>\<open>yield\<close> with the chunks \<^verbatim>\<open>iter_lines\<close> has still
  to produce; finished.
\<close>

record stream_args =
  arg_base_url :: string
  arg_messages :: pyval
  arg_model :: "pyval option"
  arg_temperature :: "pyval option"
  arg_top_k :: "pyval option"
  arg_top_p :: "pyval option"
  arg_max_tokens :: "pyval option"
  arg_headers :: "(string \<times> string) list"

datatype generator = Created stream_args | Suspended "string list" | Finished

datatype step = Yielded string | Stopped | Raised error

definition generate_text_stream ::
  "string \<Rightarrow> pyval \<Rightarrow> pyval option \<Rightarrow> pyval option \<Rightarrow> pyval option \<Rightarrow> pyval option \<Rightarrow>
   pyval option \<Rightarrow> (string \<times> string) list \<Rightarrow> generator" where
  "generate_text_stream base_url messages model temperature top_k top_p max_tokens headers =
     Created \<lparr>arg_base_url = base_url, arg_messages = messages, arg_model = model,
              arg_temperature = temperature, arg_top_k = top_k, arg_top_p = top_p,
              arg_max_tokens = max_tokens, arg_headers = headers\<rparr>"

text \<open>
  \<^verbatim>\<open>for line in response.iter_lines(): if line: yield line\<close>, from the chunks that are
  left: empty chunks are skipped, the first non-empty one is yielded, and the end of the
  chunks ends the body.
\<close>

fun resume :: "string list \<Rightarrow> step \<times> generator" where
  "resume [] = (Stopped, Finished)"
| "resume (line # rest) = (if line \<noteq> [] then (Yielded line, Suspended rest) else resume rest)"

definition stream_request :: "stream_args \<Rightarrow> request" where
  "stream_request a =
     (let url = arg_base_url a @ ''/ai/text_completion?stream=true'';
          configs = completion_configs (arg_model a) (arg_temperature a) (arg_top_k a)
                      (arg_top_p a) (arg_max_tokens a);
          payload = [(''messages'', arg_messages a), (''configs'', PDict configs)]
      in \<lparr>req_method = POST, req_url = url, req_json = Some payload,
          req_params = None, req_headers = arg_headers a, req_stream = True\<rparr>)"

text \<open>\<^verbatim>\<open>next(g)\<close>: the step taken, the generator afterwards, the requests issued.\<close>

fun gen_next :: "transport \<Rightarrow> generator \<Rightarrow> (step \<times> generator) \<times> request list" where
  "gen_next net (Created a) =
     (case validate_messages (arg_messages a) of
        Some e \<Rightarrow> ((Raised e, Finished), [])
      | None \<Rightarrow>
          (let req = stream_request a
           in case net req of
                None \<Rightarrow> ((Raised ConnectionError, Finished), [req])
              | Some response \<Rightarrow>
                  (case raise_for_status response of
                     Some e \<Rightarrow> ((Raised e, Finished), [req])
                   | None \<Rightarrow> (resume (resp_lines response), [req]))))"
| "gen_next net (Suspended rest) = (resume rest, [])"
| "gen_next net Finished = ((Stopped, Finished), [])"

text \<open>
  The number of \<^verbatim>\<open>next\<close> calls a generator can still answer with a line is bounded by
  the chunks it has left, which is what makes consuming it terminate.
\<close>

fun chunks_left :: "transport \<Rightarrow> generator \<Rightarrow> nat" where
  "chunks_left net (Created a) =
     (case net (stream_request a) of
        None \<Rightarrow> 1
      | Some response \<Rightarrow> Suc (Suc (length (resp_lines response))))"
| "chunks_left net (Suspended rest) = Suc (length rest)"
| "chunks_left net Finished = 0"

text \<open>
  \<^verbatim>\<open>list(g)\<close>, keeping what a caller observes: the lines yielded, the exception that
  ended the iteration if one did, and the requests issued on the way.
\<close>

function consume :: "transport \<Rightarrow> generator \<Rightarrow> (string list \<times> error option) \<times> request list" where
  "consume net g =
     (case gen_next net g of
        ((Yielded l, g'), reqs) \<Rightarrow>
          (case consume net g' of ((ls, e), reqs') \<Rightarrow> ((l # ls, e), reqs @ reqs'))
      | ((Stopped, g'), reqs) \<Rightarrow> (([], None), reqs)
      | ((Raised e, g'), reqs) \<Rightarrow> (([], Some e), reqs))"
  by pat_completeness auto
termination
proof -
  have shorter: "\<exists>rest. h = Suspended rest \<and> length rest < length ls"
    if "resume ls = (Yielded l, h)" for ls l h
    using that by (induction ls) (auto split: if_splits)
  have decreases: "chunks_left net g' < chunks_left net g"
    if "gen_next net g = ((Yielded l, g'), reqs)" for net g l g' reqs
    using that by (cases g) (auto simp: Let_def split: option.splits dest!: shorter)
  show ?thesis
    by (relation "measure (\<lambda>(net, g). chunks_left net g)")
       (auto dest: decreases [OF sym])
qed

declare consume.simps [simp del]

text \<open>A task name between double quotes, as the message of \<^verbatim>\<open>get_models\<close> lists them.\<close>

definition quoted :: "string \<Rightarrow> string" where
  "quoted s = [CHR 0x22] @ s @ [CHR 0x22]"

subsection \<open>The specification's Message records\<close>

text \<open>
  Following the specification's words, not the code: \<^emph>\<open>a sequence of Message records
  whose key-set is exactly {role, content} and whose role is one of the three allowed
  values\<close>.
\<close>

fun spec_message :: "pyval \<Rightarrow> bool" where
  "spec_message (PDict d) =
     (set (map fst d) = {''role'', ''content''} \<and>
      map_of d ''role'' \<in> {Some (PStr ''system''), Some (PStr ''user''), Some (PStr ''assistant'')})"
| "spec_message other = False"

fun spec_messages :: "pyval \<Rightarrow> bool" where
  "spec_messages (PList messages) = list_all spec_message messages"
| "spec_messages other = False"

text \<open>
  The arguments on which the source's loop can call \<^verbatim>\<open>message.keys()\<close> at every
  element: anything that is not a list (the loop is not reached), or a list of dicts.
\<close>

fun is_record :: "pyval \<Rightarrow> bool" where
  "is_record (PDict d) = True"
| "is_record other = False"

fun records_only :: "pyval \<Rightarrow> bool" where
  "records_only (PList messages) = list_all is_record messages"
| "records_only other = True"

text \<open>\<^verbatim>\<open>next\<close> raised the source's own \<^verbatim>\<open>ValueError\<close>.\<close>

fun raised_ValueError :: "step \<Rightarrow> bool" where
  "raised_ValueError (Raised (ValueError m)) = True"
| "raised_ValueError s = False"

section \<open>Properties\<close>

subsection \<open>The HTTP boundary\<close>

lemma requests_of_send: "snd (send net req) = [req]"
  by (simp add: send_def split: option.splits)

lemma send_not_ValueError: "\<not> is_ValueError (fst (send net req))"
  by (simp add: send_def split: option.splits)

subsection \<open>ImageGeneration\<close>

text \<open>
  C9. \<^verbatim>\<open>create_config\<close> is a total function from its four arguments to a dict: there
  is no exception and no request in its type, so it validates nothing. Called with no
  argument it returns rotation "square", steps 50, negative_prompt "", lora_weight_url ""
  and enhance_prompt false; supplied arguments are stored as they are; for all arguments
  the keys are these five, in this order, and \<^verbatim>\<open>lora_weight_url\<close> is the empty string.
\<close>

theorem create_config_builder:
  "create_config None None None None =
     [(''rotation'', PStr ''square''), (''steps'', PInt 50), (''negative_prompt'', PStr ''''),
      (''lora_weight_url'', PStr ''''), (''enhance_prompt'', PBool False)]
   \<and> create_config (Some rotation) (Some steps) (Some negative_prompt) (Some enhance_prompt) =
     [(''rotation'', rotation), (''steps'', steps), (''negative_prompt'', negative_prompt),
      (''lora_weight_url'', PStr ''''), (''enhance_prompt'', enhance_prompt)]
   \<and> map fst (create_config r s n e) =
     [''rotation'', ''steps'', ''negative_prompt'', ''lora_weight_url'', ''enhance_prompt'']
   \<and> map_of (create_config r s n e) ''lora_weight_url'' = Some (PStr '''')"
  by (simp add: create_config_def)

text \<open>
  C8. For every task id, \<^verbatim>\<open>get_result_sd_task\<close> and \<^verbatim>\<open>get_result_sdxl_task\<close> issue
  one POST to a fixed URL with the JSON body \<^verbatim>\<open>{"task_id": task_id}\<close>, whereas
  \<^verbatim>\<open>result_txt2img\<close>, \<^verbatim>\<open>result_txt2vid\<close>, \<^verbatim>\<open>result_txt2audio\<close> and
  \<^verbatim>\<open>result_text_embedding\<close> issue one GET without a body, the task id being the last
  segment of the URL.
\<close>

theorem sd_results_are_posted:
  "snd (get_result_sd_task net base_url task_id headers) =
     [\<lparr>req_method = POST, req_url = base_url @ ''/ai/get_result_sd_task'',
       req_json = Some [(''task_id'', PStr task_id)], req_params = None,
       req_headers = headers, req_stream = False\<rparr>]
   \<and> snd (get_result_sdxl_task net base_url task_id headers) =
     [\<lparr>req_method = POST, req_url = base_url @ ''/ai/get_result_sdxl_task'',
       req_json = Some [(''task_id'', PStr task_id)], req_params = None,
       req_headers = headers, req_stream = False\<rparr>]
   \<and> snd (result_txt2img net base_url task_id headers) =
     [\<lparr>req_method = GET, req_url = base_url @ ''/ai/image_generation/'' @ task_id,
       req_json = None, req_params = None, req_headers = headers, req_stream = False\<rparr>]
   \<and> snd (result_txt2vid net base_url task_id headers) =
     [\<lparr>req_method = GET, req_url = base_url @ ''/ai/video_generation/'' @ task_id,
       req_json = None, req_params = None, req_headers = headers, req_stream = False\<rparr>]
   \<and> snd (result_txt2audio net base_url task_id headers) =
     [\<lparr>req_method = GET, req_url = base_url @ ''/ai/audio_generation/'' @ task_id,
       req_json = None, req_params = None, req_headers = headers, req_stream = False\<rparr>]
   \<and> snd (result_text_embedding net base_url task_id headers) =
     [\<lparr>req_method = GET, req_url = base_url @ ''/ai/text_embedding/'' @ task_id,
       req_json = None, req_params = None, req_headers = headers, req_stream = False\<rparr>]"
  by (simp add: get_result_sd_task_def get_result_sdxl_task_def result_txt2img_def
      result_txt2vid_def result_txt2audio_def result_text_embedding_def requests_of_send)

text \<open>
  C5. For every call of \<^verbatim>\<open>get_lora_models\<close>, the \<^verbatim>\<open>params\<close> dict handed to
  \<^verbatim>\<open>requests.get\<close> has the two keys \<^verbatim>\<open>type\<close> and \<^verbatim>\<open>cate\<close>, each with the
  argument's value and with \<^verbatim>\<open>None\<close> where the argument is absent.
\<close>

theorem lora_models_params:
  "snd (get_lora_models net base_url type cate headers) =
     [\<lparr>req_method = GET, req_url = base_url @ ''/lora/'', req_json = None,
       req_params = Some [(''type'', dflt PNone type), (''cate'', dflt PNone cate)],
       req_headers = headers, req_stream = False\<rparr>]
   \<and> snd (get_lora_models net base_url None None headers) =
     [\<lparr>req_method = GET, req_url = base_url @ ''/lora/'', req_json = None,
       req_params = Some [(''type'', PNone), (''cate'', PNone)],
       req_headers = headers, req_stream = False\<rparr>]"
  by (simp add: get_lora_models_def requests_of_send)

text \<open>
  C1, as the code has it. For every call of \<^verbatim>\<open>create_txt2img\<close> the posted payload is
  \<^verbatim>\<open>{prompt, configs}\<close> and \<^verbatim>\<open>configs\<close> has eight keys with the caller's values or
  the defaults; the value of the \<^verbatim>\<open>width\<close> argument is stored under the misspelt key
  (bytes C6 B0 followed by \<^verbatim>\<open>idth\<close>), and no key of \<^verbatim>\<open>configs\<close> is \<^verbatim>\<open>width\<close>.
\<close>

theorem txt2img_configs_keys:
  "snd (create_txt2img net base_url prompt model lora width height steps seed
          negative_prompt enhance_prompt headers) =
     [\<lparr>req_method = POST, req_url = base_url @ ''/ai/image_generation'',
       req_json = Some
         [(''prompt'', prompt),
          (''configs'', PDict
             [(''model'', dflt (PStr ''sdxl-lightning'') model),
              (''lora'', dflt (PStr '''') lora),
              (''height'', dflt (PInt 1024) height),
              (CHR 0xC6 # CHR 0xB0 # ''idth'', dflt (PInt 1024) width),
              (''steps'', dflt (PInt 8) steps),
              (''negative_prompt'', dflt (PStr '''') negative_prompt),
              (''seed'', dflt (PInt (- 1)) seed),
              (''enhance_prompt'', dflt (PBool False) enhance_prompt)])],
       req_params = None, req_headers = headers, req_stream = False\<rparr>]
   \<and> ''width'' \<notin> set [''model'', ''lora'', ''height'', CHR 0xC6 # CHR 0xB0 # ''idth'',
                        ''steps'', ''negative_prompt'', ''seed'', ''enhance_prompt'']"
  by (simp add: create_txt2img_def uhorn_idth_def requests_of_send)

subsection \<open>FlexstackInfo\<close>

text \<open>
  C7. For every task, \<^verbatim>\<open>get_models\<close> raises \<^verbatim>\<open>ValueError\<close> if and only if the task
  is not one of the five task names; when it raises, no request has been issued and the
  message lists the five names; for a task among the five it issues one GET to
  \<^verbatim>\<open>{base_url}/models/{task}\<close> and returns what the transport gives.
\<close>

theorem get_models_validates_task:
  "(is_ValueError (fst (get_models net base_url task headers)) \<longleftrightarrow>
      task \<notin> set [''image_generation'', ''video_generation'', ''text_completion'',
                  ''audio_generation'', ''text_embedding''])
   \<and> (task \<notin> set task_names \<longrightarrow>
        get_models net base_url task headers =
          (Inl (ValueError (''task must be one of ['' @ join '', '' (map quoted task_names) @ '']'')), []))
   \<and> (task \<in> set task_names \<longrightarrow>
        get_models net base_url task headers =
          send net \<lparr>req_method = GET, req_url = base_url @ ''/models/'' @ task,
                    req_json = None, req_params = None, req_headers = headers,
                    req_stream = False\<rparr>
        \<and> snd (get_models net base_url task headers) =
          [\<lparr>req_method = GET, req_url = base_url @ ''/models/'' @ task,
                    req_json = None, req_params = None, req_headers = headers,
                    req_stream = False\<rparr>])"
proof -
  have msg: "task_message = ''task must be one of ['' @ join '', '' (map quoted task_names) @ '']''"
    by (simp add: task_message_def task_names_def quoted_def)
  show ?thesis
    unfolding msg [symmetric]
    by (simp add: get_models_def send_not_ValueError requests_of_send task_names_def)
qed

theorem get_models_validates_task_witness:
  "get_models (\<lambda>r. None) ''http://h'' ''bogus'' [] =
     (Inl (ValueError task_message), [])
   \<and> snd (get_models (\<lambda>r. None) ''http://h'' ''text_completion'' []) =
     [\<lparr>req_method = GET, req_url = ''http://h/models/text_completion'',
       req_json = None, req_params = None, req_headers = [], req_stream = False\<rparr>]"
  using get_models_validates_task [of "\<lambda>r. None" "''http://h''" "''bogus''" "[]"]
    get_models_validates_task [of "\<lambda>r. None" "''http://h''" "''text_completion''" "[]"]
  by (simp add: task_names_def task_message_def quoted_def send_def)

subsection \<open>AudioGeneration\<close>

lemma valid_kwargs_unknown_model:
  "map_of kwargs_valids model = None \<Longrightarrow> kwargs \<noteq> [] \<Longrightarrow>
   valid_kwargs model kwargs = Some (KeyError model)"
  by (cases kwargs) auto

lemma valid_kwargs_allowed:
  "map_of kwargs_valids model = Some valid \<Longrightarrow> set (map fst kwargs) \<subseteq> set valid \<Longrightarrow>
   valid_kwargs model kwargs = None"
  by (induction kwargs) auto

lemma valid_kwargs_rejected:
  "map_of kwargs_valids model = Some valid \<Longrightarrow> \<not> set (map fst kwargs) \<subseteq> set valid \<Longrightarrow>
   valid_kwargs model kwargs =
     Some (ValueError (unsupported_kwarg model
       (hd (filter (\<lambda>k. k \<notin> set valid) (map fst kwargs))) valid))"
proof (induction kwargs)
  case Nil
  then show ?case by simp
next
  case (Cons kv kwargs)
  obtain k v where kv: "kv = (k, v)"
    by (cases kv)
  show ?case
  proof (cases "k \<in> set valid")
    case True
    then have "\<not> set (map fst kwargs) \<subseteq> set valid"
      using Cons.prems(2) kv by simp
    then show ?thesis
      using Cons.IH Cons.prems(1) True kv by simp
  next
    case False
    then show ?thesis
      using Cons.prems(1) kv by simp
  qed
qed

lemma kwargs_valids_cases:
  "map_of kwargs_valids model =
     (if model = ''audiogen'' \<or> model = ''musicgen'' then Some [''duration'', ''top_k'', ''top_p'']
      else if model = ''bark'' then Some [] else None)"
  by (simp add: kwargs_valids_def)

lemma map_of_dict_update:
  "distinct (map fst other) \<Longrightarrow> map_of (dict_update d other) = map_of d ++ map_of other"
proof (induction other arbitrary: d)
  case Nil
  then show ?case by (simp add: dict_update_def)
next
  case (Cons kv other)
  obtain k v where kv: "kv = (k, v)"
    by (cases kv)
  have fresh: "map_of other k = None"
    using Cons.prems kv by (simp add: map_of_eq_None_iff)
  have "map_of (dict_update d (kv # other)) = map_of (dict_update (AList.update k v d) other)"
    by (simp add: dict_update_def kv)
  also have "\<dots> = (map_of d)(k \<mapsto> v) ++ map_of other"
    using Cons.IH [of "AList.update k v d"] Cons.prems
    by (simp only: update_conv' list.map distinct.simps)
  also have "\<dots> = map_of d ++ map_of (kv # other)"
    using fresh by (auto simp: fun_eq_iff map_add_def kv split: option.splits)
  finally show ?case .
qed

lemma distinct_dict_update:
  "distinct (map fst d) \<Longrightarrow> distinct (map fst (dict_update d other))"
proof (induction other arbitrary: d)
  case Nil
  then show ?case by (simp add: dict_update_def)
next
  case (Cons kv other)
  have "distinct (map fst (AList.update (fst kv) (snd kv) d))"
    using Cons.prems by (rule distinct_update)
  from Cons.IH [OF this] show ?case
    by (simp add: dict_update_def case_prod_unfold)
qed

lemma map_of_setdefault:
  "map_of (setdefault k d kwargs) =
     (map_of kwargs)(k \<mapsto> (case map_of kwargs k of None \<Rightarrow> d | Some v \<Rightarrow> v))"
  by (simp add: setdefault_def update_conv')

lemma distinct_setdefault:
  "distinct (map fst kwargs) \<Longrightarrow> distinct (map fst (setdefault k d kwargs))"
  by (simp add: setdefault_def distinct_update)

text \<open>
  C2. For model \<^verbatim>\<open>audiogen\<close> or \<^verbatim>\<open>musicgen\<close> and keyword arguments (a dict, so with
  distinct keys) among \<^verbatim>\<open>duration\<close>, \<^verbatim>\<open>top_k\<close>, \<^verbatim>\<open>top_p\<close>, one request is
  posted whose \<^verbatim>\<open>configs\<close> has exactly the keys \<^verbatim>\<open>model\<close>, \<^verbatim>\<open>duration\<close>,
  \<^verbatim>\<open>top_k\<close>, \<^verbatim>\<open>top_p\<close>: the model, and for each of the three the caller's value
  when supplied and otherwise the default 5, 15, 0.9. With no keyword argument the
  configs are model musicgen, duration 5, top_k 15, top_p 0.9; with only
  \<^verbatim>\<open>top_k=99\<close> they hold top_k 99, duration 5, top_p 0.9.
\<close>

theorem txt2audio_backfills_defaults:
  "(dflt ''musicgen'' model_arg = model \<and> (model = ''audiogen'' \<or> model = ''musicgen'') \<and>
    distinct (map fst kwargs) \<and> set (map fst kwargs) \<subseteq> {''duration'', ''top_k'', ''top_p''} \<longrightarrow>
    (\<exists>configs.
       create_txt2audio net base_url prompt model_arg headers kwargs =
         send net \<lparr>req_method = POST, req_url = base_url @ ''/ai/audio_generation'',
           req_json = Some [(''prompt'', prompt), (''configs'', PDict configs)],
           req_params = None, req_headers = headers, req_stream = False\<rparr>
       \<and> distinct (map fst configs)
       \<and> map_of configs =
           [''model'' \<mapsto> PStr model,
            ''duration'' \<mapsto> (case map_of kwargs ''duration'' of None \<Rightarrow> PInt 5 | Some v \<Rightarrow> v),
            ''top_k'' \<mapsto> (case map_of kwargs ''top_k'' of None \<Rightarrow> PInt 15 | Some v \<Rightarrow> v),
            ''top_p'' \<mapsto> (case map_of kwargs ''top_p'' of None \<Rightarrow> PFloat (9 / 10) | Some v \<Rightarrow> v)]))
   \<and> snd (create_txt2audio net base_url prompt (Some ''musicgen'') headers []) =
       [\<lparr>req_method = POST, req_url = base_url @ ''/ai/audio_generation'',
         req_json = Some [(''prompt'', prompt),
           (''configs'', PDict [(''model'', PStr ''musicgen''), (''duration'', PInt 5),
                               (''top_k'', PInt 15), (''top_p'', PFloat (9 / 10))])],
         req_params = None, req_headers = headers, req_stream = False\<rparr>]
   \<and> snd (create_txt2audio net base_url prompt (Some ''musicgen'') headers
            [(''top_k'', PInt 99)]) =
       [\<lparr>req_method = POST, req_url = base_url @ ''/ai/audio_generation'',
         req_json = Some [(''prompt'', prompt),
           (''configs'', PDict [(''model'', PStr ''musicgen''), (''top_k'', PInt 99),
                               (''duration'', PInt 5), (''top_p'', PFloat (9 / 10))])],
         req_params = None, req_headers = headers, req_stream = False\<rparr>]"
proof (intro conjI impI)
  assume hyps: "dflt ''musicgen'' model_arg = model \<and>
    (model = ''audiogen'' \<or> model = ''musicgen'') \<and> distinct (map fst kwargs) \<and>
    set (map fst kwargs) \<subseteq> {''duration'', ''top_k'', ''top_p''}"
  define filled where "filled =
    setdefault ''top_p'' (PFloat (9 / 10))
      (setdefault ''top_k'' (PInt 15) (setdefault ''duration'' (PInt 5) kwargs))"
  define configs where "configs = dict_update [(''model'', PStr model)] filled"
  have table: "map_of kwargs_valids model = Some [''duration'', ''top_k'', ''top_p'']"
    using hyps by (auto simp: kwargs_valids_cases)
  have accepted: "valid_kwargs model kwargs = None"
    using hyps by (intro valid_kwargs_allowed [OF table]) simp
  have call: "create_txt2audio net base_url prompt model_arg headers kwargs =
      send net \<lparr>req_method = POST, req_url = base_url @ ''/ai/audio_generation'',
        req_json = Some [(''prompt'', prompt), (''configs'', PDict configs)],
        req_params = None, req_headers = headers, req_stream = False\<rparr>"
    using hyps accepted by (auto simp: create_txt2audio_def configs_def filled_def)
  have distinct_filled: "distinct (map fst filled)"
    using hyps by (simp add: filled_def distinct_setdefault)
  have distinct_configs: "distinct (map fst configs)"
    by (simp add: configs_def distinct_dict_update)
  have other_keys: "map_of kwargs k = None"
    if "k \<noteq> ''duration''" "k \<noteq> ''top_k''" "k \<noteq> ''top_p''" for k
    using hyps that by (auto simp: map_of_eq_None_iff)
  have "map_of configs = map_of [(''model'', PStr model)] ++ map_of filled"
    unfolding configs_def by (rule map_of_dict_update [OF distinct_filled])
  also have "\<dots> =
      [''model'' \<mapsto> PStr model,
       ''duration'' \<mapsto> (case map_of kwargs ''duration'' of None \<Rightarrow> PInt 5 | Some v \<Rightarrow> v),
       ''top_k'' \<mapsto> (case map_of kwargs ''top_k'' of None \<Rightarrow> PInt 15 | Some v \<Rightarrow> v),
       ''top_p'' \<mapsto> (case map_of kwargs ''top_p'' of None \<Rightarrow> PFloat (9 / 10) | Some v \<Rightarrow> v)]"
    by (auto simp: fun_eq_iff filled_def map_of_setdefault map_add_def other_keys)
  finally have "map_of configs =
      [''model'' \<mapsto> PStr model,
       ''duration'' \<mapsto> (case map_of kwargs ''duration'' of None \<Rightarrow> PInt 5 | Some v \<Rightarrow> v),
       ''top_k'' \<mapsto> (case map_of kwargs ''top_k'' of None \<Rightarrow> PInt 15 | Some v \<Rightarrow> v),
       ''top_p'' \<mapsto> (case map_of kwargs ''top_p'' of None \<Rightarrow> PFloat (9 / 10) | Some v \<Rightarrow> v)]" .
  with call distinct_configs show "\<exists>configs.
       create_txt2audio net base_url prompt model_arg headers kwargs =
         send net \<lparr>req_method = POST, req_url = base_url @ ''/ai/audio_generation'',
           req_json = Some [(''prompt'', prompt), (''configs'', PDict configs)],
           req_params = None, req_headers = headers, req_stream = False\<rparr>
       \<and> distinct (map fst configs)
       \<and> map_of configs =
           [''model'' \<mapsto> PStr model,
            ''duration'' \<mapsto> (case map_of kwargs ''duration'' of None \<Rightarrow> PInt 5 | Some v \<Rightarrow> v),
            ''top_k'' \<mapsto> (case map_of kwargs ''top_k'' of None \<Rightarrow> PInt 15 | Some v \<Rightarrow> v),
            ''top_p'' \<mapsto> (case map_of kwargs ''top_p'' of None \<Rightarrow> PFloat (9 / 10) | Some v \<Rightarrow> v)]"
    by blast
next
  show "snd (create_txt2audio net base_url prompt (Some ''musicgen'') headers []) =
       [\<lparr>req_method = POST, req_url = base_url @ ''/ai/audio_generation'',
         req_json = Some [(''prompt'', prompt),
           (''configs'', PDict [(''model'', PStr ''musicgen''), (''duration'', PInt 5),
                               (''top_k'', PInt 15), (''top_p'', PFloat (9 / 10))])],
         req_params = None, req_headers = headers, req_stream = False\<rparr>]"
    by (simp add: create_txt2audio_def setdefault_def dict_update_def requests_of_send)
next
  show "snd (create_txt2audio net base_url prompt (Some ''musicgen'') headers
            [(''top_k'', PInt 99)]) =
       [\<lparr>req_method = POST, req_url = base_url @ ''/ai/audio_generation'',
         req_json = Some [(''prompt'', prompt),
           (''configs'', PDict [(''model'', PStr ''musicgen''), (''top_k'', PInt 99),
                               (''duration'', PInt 5), (''top_p'', PFloat (9 / 10))])],
         req_params = None, req_headers = headers, req_stream = False\<rparr>]"
    by (simp add: create_txt2audio_def setdefault_def dict_update_def requests_of_send
        kwargs_valids_def)
qed

theorem txt2audio_backfills_defaults_witness:
  "dflt ''musicgen'' (Some ''audiogen'') = ''audiogen''
   \<and> distinct (map fst [(''duration'', PInt 30)])
   \<and> set (map fst [(''duration'', PInt 30)]) \<subseteq> {''duration'', ''top_k'', ''top_p''}
   \<and> (\<exists>configs.
        create_txt2audio (\<lambda>r. None) ''http://h'' (PStr ''rain'') (Some ''audiogen'') []
            [(''duration'', PInt 30)] =
          send (\<lambda>r. None) \<lparr>req_method = POST, req_url = ''http://h/ai/audio_generation'',
            req_json = Some [(''prompt'', PStr ''rain''), (''configs'', PDict configs)],
            req_params = None, req_headers = [], req_stream = False\<rparr>
        \<and> distinct (map fst configs)
        \<and> map_of configs =
            [''model'' \<mapsto> PStr ''audiogen'', ''duration'' \<mapsto> PInt 30,
             ''top_k'' \<mapsto> PInt 15, ''top_p'' \<mapsto> PFloat (9 / 10)])"
  using txt2audio_backfills_defaults [of "Some ''audiogen''" "''audiogen''"
      "[(''duration'', PInt 30)]" "\<lambda>r. None" "''http://h''" "PStr ''rain''" "[]"]
  by simp

text \<open>
  C3. For a model of the table (\<^verbatim>\<open>audiogen\<close>, \<^verbatim>\<open>musicgen\<close>, \<^verbatim>\<open>bark\<close>) with
  allow-list \<open>valid\<close>, \<^verbatim>\<open>create_txt2audio\<close> raises \<^verbatim>\<open>ValueError\<close> if and only if some
  keyword argument is outside \<open>valid\<close>; it then has issued no request, and the message
  names the model, the first such keyword and the accepted names (\<open>valid\<close> followed by
  \<^verbatim>\<open>prompt\<close> and \<^verbatim>\<open>model\<close>). When every keyword is in \<open>valid\<close> nothing is raised
  locally: the result is that of the one request sent.
\<close>

theorem txt2audio_rejects_kwargs:
  assumes "map_of kwargs_valids (dflt ''musicgen'' model_arg) = Some valid"
  shows "(is_ValueError (fst (create_txt2audio net base_url prompt model_arg headers kwargs))
            \<longleftrightarrow> (\<exists>k \<in> set (map fst kwargs). k \<notin> set valid))
         \<and> ((\<exists>k \<in> set (map fst kwargs). k \<notin> set valid) \<longrightarrow>
              create_txt2audio net base_url prompt model_arg headers kwargs =
                (Inl (ValueError
                   (''Model `'' @ dflt ''musicgen'' model_arg @
                    ''` does not support keyword argument: `'' @
                    hd (filter (\<lambda>k. k \<notin> set valid) (map fst kwargs)) @
                    ''`. Only suport in ['' @ join '', '' (valid @ [''prompt'', ''model'']) @
                    '']'')), []))
         \<and> ((\<forall>k \<in> set (map fst kwargs). k \<in> set valid) \<longrightarrow>
              (\<exists>req. create_txt2audio net base_url prompt model_arg headers kwargs =
                       send net req))"
proof (cases "set (map fst kwargs) \<subseteq> set valid")
  case True
  then have "valid_kwargs (dflt ''musicgen'' model_arg) kwargs = None"
    using assms by (rule valid_kwargs_allowed [rotated])
  then have "\<exists>req. create_txt2audio net base_url prompt model_arg headers kwargs = send net req"
    unfolding create_txt2audio_def Let_def by (simp del: dflt.simps) blast
  then show ?thesis
    using True by (auto simp: send_not_ValueError)
next
  case False
  then have "valid_kwargs (dflt ''musicgen'' model_arg) kwargs =
     Some (ValueError (unsupported_kwarg (dflt ''musicgen'' model_arg)
       (hd (filter (\<lambda>k. k \<notin> set valid) (map fst kwargs))) valid))"
    using assms by (rule valid_kwargs_rejected [rotated])
  then have "create_txt2audio net base_url prompt model_arg headers kwargs =
     (Inl (ValueError (unsupported_kwarg (dflt ''musicgen'' model_arg)
       (hd (filter (\<lambda>k. k \<notin> set valid) (map fst kwargs))) valid)), [])"
    by (simp add: create_txt2audio_def Let_def)
  then show ?thesis
    using False by (auto simp: unsupported_kwarg_def)
qed

theorem txt2audio_rejects_kwargs_witness:
  "create_txt2audio (\<lambda>r. None) ''http://h'' (PStr ''rain'') (Some ''bark'') []
       [(''duration'', PInt 5)] =
     (Inl (ValueError
        ''Model `bark` does not support keyword argument: `duration`. Only suport in [prompt, model]''),
      [])
   \<and> create_txt2audio (\<lambda>r. None) ''http://h'' (PStr ''rain'') None []
       [(''top_k'', PInt 99), (''volume'', PInt 11)] =
     (Inl (ValueError
        ''Model `musicgen` does not support keyword argument: `volume`. Only suport in [duration, top_k, top_p, prompt, model]''),
      [])
   \<and> \<not> is_ValueError (fst (create_txt2audio (\<lambda>r. None) ''http://h'' (PStr ''rain'')
         (Some ''audiogen'') [] [(''top_k'', PInt 99)]))"
proof -
  have bark: "map_of kwargs_valids (dflt ''musicgen'' (Some ''bark'')) = Some []"
    by (simp add: kwargs_valids_def)
  have musicgen: "map_of kwargs_valids (dflt ''musicgen'' None) =
      Some [''duration'', ''top_k'', ''top_p'']"
    by (simp add: kwargs_valids_def)
  have audiogen: "map_of kwargs_valids (dflt ''musicgen'' (Some ''audiogen'')) =
      Some [''duration'', ''top_k'', ''top_p'']"
    by (simp add: kwargs_valids_def)
  show ?thesis
    using txt2audio_rejects_kwargs [OF bark, of "\<lambda>r. None" "''http://h''" "PStr ''rain''" "[]"
        "[(''duration'', PInt 5)]"]
      txt2audio_rejects_kwargs [OF musicgen, of "\<lambda>r. None" "''http://h''" "PStr ''rain''" "[]"
        "[(''top_k'', PInt 99), (''volume'', PInt 11)]"]
      txt2audio_rejects_kwargs [OF audiogen, of "\<lambda>r. None" "''http://h''" "PStr ''rain''" "[]"
        "[(''top_k'', PInt 99)]"]
    by simp
qed

text \<open>
  C10. For a model outside the table the model name is not validated: with at least one
  keyword argument the call raises \<^verbatim>\<open>KeyError\<close> for the model (not \<^verbatim>\<open>ValueError\<close>)
  and issues no request; with none it raises nothing locally and posts the configs
  \<^verbatim>\<open>{"model": model}\<close>.
\<close>

theorem txt2audio_unknown_model:
  assumes "model \<notin> {''audiogen'', ''musicgen'', ''bark''}"
  shows "(kwargs \<noteq> [] \<longrightarrow>
            create_txt2audio net base_url prompt (Some model) headers kwargs =
              (Inl (KeyError model), []))
         \<and> create_txt2audio net base_url prompt (Some model) headers [] =
              send net \<lparr>req_method = POST, req_url = base_url @ ''/ai/audio_generation'',
                req_json = Some [(''prompt'', prompt),
                                 (''configs'', PDict [(''model'', PStr model)])],
                req_params = None, req_headers = headers, req_stream = False\<rparr>
         \<and> snd (create_txt2audio net base_url prompt (Some model) headers []) =
              [\<lparr>req_method = POST, req_url = base_url @ ''/ai/audio_generation'',
                req_json = Some [(''prompt'', prompt),
                                 (''configs'', PDict [(''model'', PStr model)])],
                req_params = None, req_headers = headers, req_stream = False\<rparr>]"
proof -
  have unknown: "map_of kwargs_valids model = None"
    using assms by (simp add: kwargs_valids_cases)
  have "create_txt2audio net base_url prompt (Some model) headers kwargs =
          (Inl (KeyError model), [])" if "kwargs \<noteq> []"
    using valid_kwargs_unknown_model [OF unknown that]
    by (simp add: create_txt2audio_def)
  moreover have "create_txt2audio net base_url prompt (Some model) headers [] =
      send net \<lparr>req_method = POST, req_url = base_url @ ''/ai/audio_generation'',
        req_json = Some [(''prompt'', prompt), (''configs'', PDict [(''model'', PStr model)])],
        req_params = None, req_headers = headers, req_stream = False\<rparr>"
    using assms by (simp add: create_txt2audio_def dict_update_def)
  ultimately show ?thesis
    by (simp add: requests_of_send)
qed

theorem txt2audio_unknown_model_witness:
  "create_txt2audio (\<lambda>r. None) ''http://h'' (PStr ''rain'') (Some ''whisper'') []
       [(''duration'', PInt 5)] = (Inl (KeyError ''whisper''), [])
   \<and> snd (create_txt2audio (\<lambda>r. None) ''http://h'' (PStr ''rain'') (Some ''whisper'') [] []) =
       [\<lparr>req_method = POST, req_url = ''http://h/ai/audio_generation'',
         req_json = Some [(''prompt'', PStr ''rain''),
                          (''configs'', PDict [(''model'', PStr ''whisper'')])],
         req_params = None, req_headers = [], req_stream = False\<rparr>]"
proof -
  have m: "''whisper'' \<notin> {''audiogen'', ''musicgen'', ''bark''}"
    by simp
  show ?thesis
    using txt2audio_unknown_model [OF m, of "[(''duration'', PInt 5)]" "\<lambda>r. None" "''http://h''"
        "PStr ''rain''" "[]"]
    by (simp add: send_def)
qed

subsection \<open>TextGeneration\<close>

lemma check_messages_record:
  "check_messages (PDict d # rest) = None \<longleftrightarrow>
     spec_message (PDict d) \<and> check_messages rest = None"
proof (cases "set (map fst d) = {''role'', ''content''}")
  case False
  then show ?thesis by simp
next
  case True
  then have "''role'' \<in> fst ` set d"
    by simp
  then obtain role where role: "map_of d ''role'' = Some role"
    by (cases "map_of d ''role''") (simp_all add: map_of_eq_None_iff)
  show ?thesis
    using True role by (cases "role \<in> {PStr ''system'', PStr ''user'', PStr ''assistant''}") simp_all
qed

lemma check_messages_record_error:
  "check_messages (PDict d # rest) = Some e \<Longrightarrow>
     (\<exists>m. e = ValueError m) \<or> check_messages rest = Some e"
proof (cases "set (map fst d) = {''role'', ''content''}")
  case False
  then have "check_messages (PDict d # rest) = Some (ValueError bad_keys)"
    by simp
  moreover assume "check_messages (PDict d # rest) = Some e"
  ultimately have "e = ValueError bad_keys"
    by simp
  then show ?thesis
    by (intro disjI1 exI)
next
  case True
  assume e: "check_messages (PDict d # rest) = Some e"
  from True have "''role'' \<in> fst ` set d"
    by simp
  then obtain role where role: "map_of d ''role'' = Some role"
    by (cases "map_of d ''role''") (simp_all add: map_of_eq_None_iff)
  show ?thesis
  proof (cases "role \<in> {PStr ''system'', PStr ''user'', PStr ''assistant''}")
    case False
    then have "check_messages (PDict d # rest) = Some (ValueError bad_role)"
      using True role by simp
    then have "e = ValueError bad_role"
      using e by simp
    then show ?thesis
      by (intro disjI1 exI)
  next
    case valid: True
    then have "check_messages (PDict d # rest) = check_messages rest"
      using True role by simp
    then show ?thesis
      using e by simp
  qed
qed

lemma check_messages_records:
  "list_all is_record messages \<Longrightarrow>
   (check_messages messages = None \<longleftrightarrow> list_all spec_message messages) \<and>
   (check_messages messages \<noteq> None \<longrightarrow> (\<exists>m. check_messages messages = Some (ValueError m)))"
proof (induction messages)
  case Nil
  then show ?case by simp
next
  case (Cons message rest)
  then obtain d where d: "message = PDict d"
    by (cases message) auto
  have "list_all is_record rest"
    using Cons.prems by simp
  from Cons.IH [OF this]
  have rest: "check_messages rest = None \<longleftrightarrow> list_all spec_message rest"
    and rest_error: "check_messages rest \<noteq> None \<longrightarrow>
      (\<exists>m. check_messages rest = Some (ValueError m))"
    by blast+
  have "check_messages (message # rest) = None \<longleftrightarrow> list_all spec_message (message # rest)"
    unfolding d check_messages_record rest by simp
  moreover have "\<exists>m. check_messages (message # rest) = Some (ValueError m)"
    if "check_messages (message # rest) \<noteq> None"
  proof -
    from that obtain e where e: "check_messages (PDict d # rest) = Some e"
      unfolding d by blast
    from check_messages_record_error [OF e]
    consider (here) m where "e = ValueError m" | (later) "check_messages rest = Some e"
      by blast
    then show ?thesis
    proof cases
      case here
      then show ?thesis
        unfolding d using e by blast
    next
      case later
      then obtain m where "e = ValueError m"
        using rest_error by auto
      then show ?thesis
        unfolding d using e by blast
    qed
  qed
  ultimately show ?case
    by blast
qed

lemma validate_messages_records:
  "records_only messages \<Longrightarrow>
   (validate_messages messages = None \<longleftrightarrow> spec_messages messages) \<and>
   (validate_messages messages \<noteq> None \<longrightarrow> (\<exists>m. validate_messages messages = Some (ValueError m)))"
  using check_messages_records by (cases messages) auto

lemma resume_not_Raised: "fst (resume ls) \<noteq> Raised e"
  by (induction ls) auto

lemma gen_next_ValueError:
  "raised_ValueError (fst (fst (gen_next net (Created a)))) \<longleftrightarrow>
     (\<exists>m. validate_messages (arg_messages a) = Some (ValueError m))"
proof (cases "validate_messages (arg_messages a)")
  case None
  have "\<not> raised_ValueError (fst (resume ls))" for ls
    using resume_not_Raised [of ls] by (cases "fst (resume ls)") auto
  then show ?thesis
    using None by (auto simp: Let_def raise_for_status_def split: option.splits)
next
  case (Some e)
  then show ?thesis
    by (cases e) auto
qed

lemma consume_resume:
  "gen_next net g = (resume ls, reqs) \<Longrightarrow>
   consume net g = ((filter (\<lambda>l. l \<noteq> []) ls, None), reqs)"
proof (induction ls arbitrary: g reqs)
  case Nil
  then show ?case
    by (subst consume.simps) simp
next
  case (Cons l rest)
  show ?case
  proof (cases "l = []")
    case True
    then have "gen_next net g = (resume rest, reqs)"
      using Cons.prems by simp
    from Cons.IH [OF this] show ?thesis
      using True by simp
  next
    case False
    then have step: "gen_next net g = ((Yielded l, Suspended rest), reqs)"
      using Cons.prems by simp
    have "gen_next net (Suspended rest) = (resume rest, [])"
      by simp
    from Cons.IH [OF this]
    have "consume net (Suspended rest) = ((filter (\<lambda>l. l \<noteq> []) rest, None), [])" .
    then show ?thesis
      using step False by (subst consume.simps) simp
  qed
qed

text \<open>
  C4, amended. For every \<^verbatim>\<open>messages\<close> argument that is not a list, or is a list whose
  elements are all dicts, \<^verbatim>\<open>text_generation\<close> raises \<^verbatim>\<open>ValueError\<close> if and only if
  \<^verbatim>\<open>messages\<close> is not a list of records whose key-set is exactly {role, content} with
  role among system, user, assistant; it then has issued no request. The generator of
  \<^verbatim>\<open>generate_text_stream\<close> applies the same validation when it is first advanced:
  its first \<^verbatim>\<open>next\<close> raises \<^verbatim>\<open>ValueError\<close> under the same condition, with no request
  issued.
\<close>

theorem messages_validation:
  assumes "records_only messages"
  shows "(is_ValueError (fst (text_generation net base_url messages model temperature top_k
              top_p max_tokens headers)) \<longleftrightarrow> \<not> spec_messages messages)
    \<and> (\<not> spec_messages messages \<longrightarrow>
         snd (text_generation net base_url messages model temperature top_k top_p
                max_tokens headers) = [])
    \<and> (raised_ValueError (fst (fst (gen_next net (generate_text_stream base_url messages model
              temperature top_k top_p max_tokens headers)))) \<longleftrightarrow> \<not> spec_messages messages)
    \<and> (\<not> spec_messages messages \<longrightarrow>
         snd (gen_next net (generate_text_stream base_url messages model temperature top_k
                top_p max_tokens headers)) = [])"
proof (cases "validate_messages messages")
  case None
  then have ok: "spec_messages messages"
    using validate_messages_records [OF assms] by simp
  have "\<not> is_ValueError (fst (text_generation net base_url messages model temperature top_k
              top_p max_tokens headers))"
    using None by (simp add: text_generation_def send_not_ValueError)
  moreover have "\<not> raised_ValueError (fst (fst (gen_next net (generate_text_stream base_url
      messages model temperature top_k top_p max_tokens headers))))"
    unfolding generate_text_stream_def gen_next_ValueError using None by simp
  ultimately show ?thesis
    using ok by simp
next
  case (Some e)
  then obtain m where e: "e = ValueError m"
    using validate_messages_records [OF assms] by auto
  have bad: "\<not> spec_messages messages"
    using Some validate_messages_records [OF assms] by auto
  have "text_generation net base_url messages model temperature top_k top_p max_tokens headers =
      (Inl (ValueError m), [])"
    using Some e by (simp add: text_generation_def)
  moreover have "gen_next net (generate_text_stream base_url messages model temperature top_k
      top_p max_tokens headers) = ((Raised (ValueError m), Finished), [])"
    using Some e by (simp add: generate_text_stream_def)
  ultimately show ?thesis
    using bad by simp
qed

theorem messages_validation_witness:
  "records_only (PList [PDict [(''role'', PStr ''robot''), (''content'', PStr ''hi'')]])
   \<and> is_ValueError (fst (text_generation (\<lambda>r. None) ''http://h''
        (PList [PDict [(''role'', PStr ''robot''), (''content'', PStr ''hi'')]])
        None None None None None []))
   \<and> snd (text_generation (\<lambda>r. None) ''http://h''
        (PList [PDict [(''role'', PStr ''robot''), (''content'', PStr ''hi'')]])
        None None None None None []) = []
   \<and> records_only (PList [PDict [(''role'', PStr ''user''), (''content'', PStr ''hi'')]])
   \<and> \<not> is_ValueError (fst (text_generation (\<lambda>r. None) ''http://h''
        (PList [PDict [(''role'', PStr ''user''), (''content'', PStr ''hi'')]])
        None None None None None []))"
proof -
  have r1: "records_only (PList [PDict [(''role'', PStr ''robot''), (''content'', PStr ''hi'')]])"
    by simp
  have r2: "records_only (PList [PDict [(''role'', PStr ''user''), (''content'', PStr ''hi'')]])"
    by simp
  show ?thesis
    using messages_validation [OF r1, of "\<lambda>r. None" "''http://h''" None None None None None "[]"]
      messages_validation [OF r2, of "\<lambda>r. None" "''http://h''" None None None None None "[]"]
    by (simp add: insert_commute)
qed

text \<open>
  C4 as stated fails on a list with an element that is not a dict: \<^verbatim>\<open>["hello"]\<close> is not
  a sequence of Message records, yet the call raises \<^verbatim>\<open>AttributeError\<close> (from
  \<^verbatim>\<open>message.keys()\<close>), not \<^verbatim>\<open>ValueError\<close>.
\<close>

theorem messages_validation_counterexample:
  "\<not> spec_messages (PList [PStr ''hello''])
   \<and> text_generation (\<lambda>r. None) ''http://h'' (PList [PStr ''hello''])
        None None None None None [] = (Inl (AttributeError ''keys''), [])
   \<and> \<not> is_ValueError (fst (text_generation (\<lambda>r. None) ''http://h'' (PList [PStr ''hello''])
        None None None None None []))"
  by (simp add: text_generation_def)

text \<open>
  C6, amended. For valid messages and a transport that answers the streaming POST, the
  generator of \<^verbatim>\<open>generate_text_stream\<close> issues that one request when it is first
  advanced. If the status is 4xx or 5xx (where \<^verbatim>\<open>raise_for_status\<close> raises), the first
  \<^verbatim>\<open>next\<close> raises \<^verbatim>\<open>HTTPError\<close> and no line is ever yielded. For every other status
  consuming the generator terminates and yields exactly the non-empty chunks of
  \<^verbatim>\<open>iter_lines\<close>, in order, without an exception.
\<close>

theorem stream_status_and_lines:
  assumes "validate_messages messages = None"
    and "g = generate_text_stream base_url messages model temperature top_k top_p max_tokens headers"
    and "req = \<lparr>req_method = POST, req_url = base_url @ ''/ai/text_completion?stream=true'',
           req_json = Some [(''messages'', messages),
             (''configs'', PDict (completion_configs model temperature top_k top_p max_tokens))],
           req_params = None, req_headers = headers, req_stream = True\<rparr>"
    and "net req = Some response"
  shows "(400 \<le> status_code response \<and> status_code response < 600 \<longrightarrow>
           gen_next net g = ((Raised (HTTPError (status_code response)), Finished), [req])
           \<and> consume net g = (([], Some (HTTPError (status_code response))), [req]))
       \<and> (\<not> (400 \<le> status_code response \<and> status_code response < 600) \<longrightarrow>
           consume net g = ((filter (\<lambda>l. l \<noteq> []) (resp_lines response), None), [req]))"
proof -
  have req: "stream_request \<lparr>arg_base_url = base_url, arg_messages = messages, arg_model = model,
              arg_temperature = temperature, arg_top_k = top_k, arg_top_p = top_p,
              arg_max_tokens = max_tokens, arg_headers = headers\<rparr> = req"
    by (simp add: stream_request_def assms(3))
  have start: "gen_next net g =
      (case raise_for_status response of
         Some e \<Rightarrow> ((Raised e, Finished), [req])
       | None \<Rightarrow> (resume (resp_lines response), [req]))"
    using assms(1,4) by (simp add: assms(2) generate_text_stream_def req)
  show ?thesis
  proof (cases "400 \<le> status_code response \<and> status_code response < 600")
    case True
    then have "raise_for_status response = Some (HTTPError (status_code response))"
      by (simp add: raise_for_status_def)
    then have raised: "gen_next net g =
        ((Raised (HTTPError (status_code response)), Finished), [req])"
      using start by simp
    then have "consume net g = (([], Some (HTTPError (status_code response))), [req])"
      by (subst consume.simps) simp
    then show ?thesis
      using True raised by simp
  next
    case False
    then have "raise_for_status response = None"
      by (simp add: raise_for_status_def)
    then have "gen_next net g = (resume (resp_lines response), [req])"
      using start by simp
    then have "consume net g = ((filter (\<lambda>l. l \<noteq> []) (resp_lines response), None), [req])"
      by (rule consume_resume)
    then show ?thesis
      using False by simp
  qed
qed

theorem stream_status_and_lines_witness:
  "consume (\<lambda>r. Some \<lparr>status_code = 404, resp_json = None, resp_lines = [''not found'']\<rparr>)
      (generate_text_stream ''http://h''
         (PList [PDict [(''role'', PStr ''user''), (''content'', PStr ''hi'')]])
         None None None None None []) =
     (([], Some (HTTPError 404)),
      [\<lparr>req_method = POST, req_url = ''http://h/ai/text_completion?stream=true'',
        req_json = Some [(''messages'',
            PList [PDict [(''role'', PStr ''user''), (''content'', PStr ''hi'')]]),
          (''configs'', PDict (completion_configs None None None None None))],
        req_params = None, req_headers = [], req_stream = True\<rparr>])
   \<and> consume (\<lambda>r. Some \<lparr>status_code = 200, resp_json = None,
                            resp_lines = [''data: a'', [], ''data: b'']\<rparr>)
      (generate_text_stream ''http://h''
         (PList [PDict [(''role'', PStr ''user''), (''content'', PStr ''hi'')]])
         None None None None None []) =
     (([''data: a'', ''data: b''], None),
      [\<lparr>req_method = POST, req_url = ''http://h/ai/text_completion?stream=true'',
        req_json = Some [(''messages'',
            PList [PDict [(''role'', PStr ''user''), (''content'', PStr ''hi'')]]),
          (''configs'', PDict (completion_configs None None None None None))],
        req_params = None, req_headers = [], req_stream = True\<rparr>])"
proof -
  have valid: "validate_messages
      (PList [PDict [(''role'', PStr ''user''), (''content'', PStr ''hi'')]]) = None"
    by (simp add: insert_commute)
  have n404: "(\<lambda>r. Some \<lparr>status_code = 404, resp_json = None, resp_lines = [''not found'']\<rparr>)
      req = Some \<lparr>status_code = 404, resp_json = None, resp_lines = [''not found'']\<rparr>"
    for req :: request
    by simp
  have n200: "(\<lambda>r. Some \<lparr>status_code = 200, resp_json = None,
                           resp_lines = [''data: a'', [], ''data: b'']\<rparr>) req =
      Some \<lparr>status_code = 200, resp_json = None,
            resp_lines = [''data: a'', [], ''data: b'']\<rparr>"
    for req :: request
    by simp
  show ?thesis
    using stream_status_and_lines [OF valid refl refl n404, of "''http://h''" None None None None
        None "[]"]
      stream_status_and_lines [OF valid refl refl n200, of "''http://h''" None None None None
        None "[]"]
    by simp
qed

text \<open>
  C6 as stated fails at a status that is neither 2xx nor an error for
  \<^verbatim>\<open>raise_for_status\<close>: with status 304 the first \<^verbatim>\<open>next\<close> yields a line instead of
  raising.
\<close>

theorem stream_status_counterexample:
  "validate_messages (PList [PDict [(''role'', PStr ''user''), (''content'', PStr ''hi'')]]) = None
   \<and> \<not> (200 \<le> status_code \<lparr>status_code = 304, resp_json = None, resp_lines = [''data: a'']\<rparr>
          \<and> status_code \<lparr>status_code = 304, resp_json = None, resp_lines = [''data: a'']\<rparr> < 300)
   \<and> fst (gen_next (\<lambda>r. Some \<lparr>status_code = 304, resp_json = None, resp_lines = [''data: a'']\<rparr>)
        (generate_text_stream ''http://h''
           (PList [PDict [(''role'', PStr ''user''), (''content'', PStr ''hi'')]])
           None None None None None [])) =
     (Yielded ''data: a'', Suspended [])"
  by (simp add: generate_text_stream_def raise_for_status_def insert_commute)

end
